theory Spec2Isabelle
  imports Main
begin

section \<open>SafeLavaLamp (components/ui/SafeLavaLamp.tsx)\<close>

text \<open>
  The values the component handles at run time. The catch clause binds whatever was
  thrown, and \<open>err as Error\<close> is a compile-time cast that checks nothing, so a caught
  value is any JavaScript value: \<open>null\<close>, \<open>undefined\<close>, a boolean, a number (whole
  numbers only; \<open>NaN\<close> is left out), a string, or an object, given by the properties
  a read of it finds (inherited ones included).
\<close>

datatype js_value =
    JsNull
  | JsUndefined
  | JsBoolean bool
  | JsNumber int
  | JsString string
  | JsObject "(string \<times> js_value) list"

text \<open>
  \<open>new Error(msg)\<close>, and the \<open>TypeError\<close> the engine throws when a property of
  \<open>null\<close> or \<open>undefined\<close> is read (its message is the engine's own and is left out).
\<close>

definition new_Error :: "string \<Rightarrow> js_value" where
  "new_Error msg = JsObject [(''name'', JsString ''Error''), (''message'', JsString msg)]"

definition TypeError :: js_value where
  "TypeError = JsObject [(''name'', JsString ''TypeError'')]"

text \<open>
  The read \<open>err.message\<close>: it throws on \<open>null\<close> and \<open>undefined\<close>, gives the property
  of an object (\<open>undefined\<close> when there is none), and \<open>undefined\<close> on a boolean, a
  number or a string.
\<close>

fun read_message :: "js_value \<Rightarrow> js_value + js_value" where
  "read_message JsNull = Inl TypeError"
| "read_message JsUndefined = Inl TypeError"
| "read_message (JsObject props) =
     Inr (case map_of props ''message'' of None \<Rightarrow> JsUndefined | Some v \<Rightarrow> v)"
| "read_message v = Inr JsUndefined"

text \<open>
  JavaScript truthiness, as \<open>if (ErrorComponent)\<close> tests it: \<open>null\<close>, \<open>undefined\<close>,
  \<open>false\<close>, \<open>0\<close> and the empty string are falsy, every other value is truthy.
\<close>

fun truthy :: "js_value \<Rightarrow> bool" where
  "truthy JsNull = False"
| "truthy JsUndefined = False"
| "truthy (JsBoolean b) = b"
| "truthy (JsNumber n) = (n \<noteq> 0)"
| "truthy (JsString msg) = (msg \<noteq> [])"
| "truthy (JsObject props) = True"

text \<open>
  The component keeps two \<open>useState\<close> cells, \<open>showLamp\<close> (initially \<open>false\<close>) and
  \<open>ErrorComponent\<close> (declared \<open>null | string\<close>, initially \<open>null\<close>; at run time it
  holds whatever \<open>setError\<close> was given). One render is a function of the current
  cells and of what \<open>require\<close> does when it is called; it returns a React node or
  \<open>null\<close>, or throws, and may call \<open>console.error\<close> and \<open>setError\<close>.
\<close>

record lamp_state =
  showLamp :: bool
  ErrorComponent :: js_value

text \<open>The exports of \<open>./fluid-blob\<close>, of which the component destructures \<open>LavaLamp\<close>.\<close>

record 'c fluid_blob =
  LavaLamp :: 'c

text \<open>\<open><LavaLamp />\<close>: an element of the given component, with no props.\<close>

datatype 'c react_node = Element 'c

text \<open>What a render does besides returning: the calls it makes, in order.\<close>

datatype call =
    ConsoleError string js_value
  | SetError js_value

record 'c rendered =
  returned :: "'c react_node option"
  calls :: "call list"

text \<open>
  \<open>try { body } catch (err) { handler }\<close> over computations that either throw
  (\<open>Inl\<close>) or return (\<open>Inr\<close>): a throw of the body runs the handler, whose own
  outcome, a throw included, is the outcome of the statement.
\<close>

definition try_catch :: "('e + 'a) \<Rightarrow> ('e \<Rightarrow> 'e + 'a) \<Rightarrow> 'e + 'a" where
  "try_catch body handler = (case body of Inl err \<Rightarrow> handler err | Inr v \<Rightarrow> Inr v)"

text \<open>
  The render function. \<open>require\<close> is the module loader: given a path it throws a
  value or returns the module's exports. The order of the tests is the source's: the
  recorded error first, then \<open>showLamp\<close>, then the guarded load. In the handler,
  \<open>(err as Error).message\<close> is evaluated first; when that read throws, nothing
  catches it and the render throws to the parent.
\<close>

definition SafeLavaLamp ::
  "(string \<Rightarrow> js_value + 'c fluid_blob) \<Rightarrow> lamp_state \<Rightarrow> js_value + 'c rendered" where
  "SafeLavaLamp require s =
     (if truthy (ErrorComponent s) then
        Inr \<lparr>returned = None,
             calls = [ConsoleError ''LavaLamp failed to load:'' (ErrorComponent s)]\<rparr>
      else if \<not> showLamp s then
        Inr \<lparr>returned = None, calls = []\<rparr>
      else
        try_catch
          (case require ''./fluid-blob'' of
             Inl err \<Rightarrow> Inl err
           | Inr m \<Rightarrow> Inr \<lparr>returned = Some (Element (LavaLamp m)), calls = []\<rparr>)
          (\<lambda>err. case read_message err of
             Inl thrown \<Rightarrow> Inl thrown
           | Inr msg \<Rightarrow> Inr \<lparr>returned = None, calls = [SetError msg]\<rparr>))"

text \<open>The cells on the first render: the arguments of the two \<open>useState\<close> calls.\<close>

definition initial_state :: lamp_state where
  "initial_state = \<lparr>showLamp = False, ErrorComponent = JsNull\<rparr>"

text \<open>
  The cells after the calls of a render have taken effect. A render that threw
  leaves them as they were.
\<close>

fun apply_call :: "lamp_state \<Rightarrow> call \<Rightarrow> lamp_state" where
  "apply_call s (ConsoleError label v) = s"
| "apply_call s (SetError v) = s\<lparr>ErrorComponent := v\<rparr>"

definition after_render :: "lamp_state \<Rightarrow> js_value + 'c rendered \<Rightarrow> lamp_state" where
  "after_render s outcome =
     (case outcome of Inl thrown \<Rightarrow> s | Inr r \<Rightarrow> foldl apply_call s (calls r))"

text \<open>
  The mount effect (\<open>useEffect\<close> with the dependencies \<open>[]\<close>, so run once, on
  mount): \<open>setTimeout(() => setShowLamp(true), 100)\<close>; its cleanup clears the timer
  when the component unmounts.
\<close>

definition mount_timer_ms :: nat where
  "mount_timer_ms = 100"

definition timer_fired :: "lamp_state \<Rightarrow> lamp_state" where
  "timer_fired s = s\<lparr>showLamp := True\<rparr>"

text \<open>
  A mounted component: its cells and the milliseconds left on the pending timer
  (\<open>None\<close> once the timer has fired or has been cleared).
\<close>

record mounted =
  cells :: lamp_state
  pending :: "nat option"

definition mount :: mounted where
  "mount = \<lparr>cells = initial_state, pending = Some mount_timer_ms\<rparr>"

text \<open>
  What happens to a mounted component: time passes, React renders it (with the
  loader behaving as given during that render), or it unmounts. React renders a
  component on mount and whenever a cell has changed; here a render may come at any
  moment. The timer's callback runs once the delay has passed; the calls of a render
  have taken effect before the next one.
\<close>

datatype 'c lifecycle =
    Elapse nat
  | Render "string \<Rightarrow> js_value + 'c fluid_blob"
  | Unmount

fun advance :: "mounted \<Rightarrow> 'c lifecycle \<Rightarrow> mounted" where
  "advance c (Elapse t) =
     (case pending c of
        None \<Rightarrow> c
      | Some d \<Rightarrow>
          if d \<le> t then \<lparr>cells = timer_fired (cells c), pending = None\<rparr>
          else c\<lparr>pending := Some (d - t)\<rparr>)"
| "advance c (Render require) =
     c\<lparr>cells := after_render (cells c) (SafeLavaLamp require (cells c))\<rparr>"
| "advance c Unmount = c\<lparr>pending := None\<rparr>"

text \<open>The state after a list of events, and what the renders among them returned.\<close>

fun play :: "mounted \<Rightarrow> 'c lifecycle list \<Rightarrow> mounted" where
  "play c [] = c"
| "play c (e # es) = play (advance c e) es"

fun rendering :: "mounted \<Rightarrow> 'c lifecycle \<Rightarrow> (js_value + 'c rendered) list" where
  "rendering c (Render require) = [SafeLavaLamp require (cells c)]"
| "rendering c e = []"

fun outcomes :: "mounted \<Rightarrow> 'c lifecycle list \<Rightarrow> (js_value + 'c rendered) list" where
  "outcomes c [] = []"
| "outcomes c (e # es) = rendering c e @ outcomes (advance c e) es"

text \<open>The time a list of events takes, and whether the pending timer outlasts a given time.\<close>

fun elapsed :: "'c lifecycle list \<Rightarrow> nat" where
  "elapsed [] = 0"
| "elapsed (Elapse t # es) = t + elapsed es"
| "elapsed (e # es) = elapsed es"

definition timer_waits :: "mounted \<Rightarrow> nat \<Rightarrow> bool" where
  "timer_waits c t = (case pending c of None \<Rightarrow> True | Some d \<Rightarrow> t < d)"

text \<open>Two concrete loaders: one that throws the given value, one that loads.\<close>

definition require_throws :: "js_value \<Rightarrow> string \<Rightarrow> js_value + string fluid_blob" where
  "require_throws thrown path = Inl thrown"

definition require_loads :: "string \<Rightarrow> js_value + string fluid_blob" where
  "require_loads path = Inr \<lparr>LavaLamp = ''LavaLamp''\<rparr>"

section \<open>TradingBotGraphic (components/TradingBotGraphic.tsx)\<close>

text \<open>
  The module's top-level scope. \<open>const data = [...]\<close> binds \<open>data\<close> once, to an
  array of objects \<open>{ name, uv }\<close>; the binding cannot be reassigned, but the array
  is an ordinary mutable JavaScript array, alive for as long as the module is. The
  scope records what the array holds at a given moment.
\<close>

record datum =
  name :: string
  uv :: int

record module_scope =
  data :: "datum list"

text \<open>The scope once the module has been evaluated (lines 5 to 13).\<close>

definition module_evaluated :: module_scope where
  "module_evaluated =
     \<lparr>data =
        [\<lparr>name = ''Jan'', uv = 4000\<rparr>,
         \<lparr>name = ''Feb'', uv = 3000\<rparr>,
         \<lparr>name = ''Mar'', uv = 2000\<rparr>,
         \<lparr>name = ''Apr'', uv = 2780\<rparr>,
         \<lparr>name = ''May'', uv = 1890\<rparr>,
         \<lparr>name = ''Jun'', uv = 2390\<rparr>,
         \<lparr>name = ''Jul'', uv = 3490\<rparr>]\<rparr>"

text \<open>
  The React element tree a render returns: a tag or component name, its props in the
  order they are written, and its children; text children as JSX reads them (a line
  break with its indentation is dropped, a space after an element on the same line
  is kept). A prop is a string, a number, a boolean, an array of data rows or an
  object of numbers (the chart's \<open>margin\<close>).
\<close>

datatype prop_value =
    PStr string
  | PNum int
  | PBool bool
  | PRows "datum list"
  | PObj "(string \<times> int) list"

datatype jsx =
    Tag string "(string \<times> prop_value) list" "jsx list"
  | Text string

text \<open>
  The component: an arrow function of no parameters, so whatever React passes
  (\<open>props\<close>) is ignored, and with no hook. One render runs in the scope as it is at
  that moment and returns the tree together with the scope as the render leaves it.
  The body reads \<open>data\<close> twice, once for each chart, and the tree shows what the
  array holds at the time of the render; the body has no assignment and no call on
  the array, so it leaves the scope as it found it. The chart elements are part of
  the returned tree; the render does not run them.
\<close>

definition TradingBotGraphic :: "'props \<Rightarrow> module_scope \<Rightarrow> jsx \<times> module_scope" where
  "TradingBotGraphic props m =
 (Tag ''div'' [(''className'', PStr ''relative flex flex-col items-center justify-center p-4'')]
  [Tag ''div'' [(''className'', PStr ''relative w-64 h-96 bg-black rounded-[2.5rem] border-4 border-gold shadow-2xl overflow-hidden z-10'')]
   [Tag ''div'' [(''className'', PStr ''absolute inset-2 bg-gray-900 rounded-[2rem] flex flex-col p-4'')]
    [Tag ''div'' [(''className'', PStr ''flex justify-between items-center mb-4'')]
     [Tag ''span'' [(''className'', PStr ''text-white text-sm font-semibold'')] [Text ''9:41 AM''],
      Tag ''div'' [(''className'', PStr ''flex items-center space-x-1'')]
      [Tag ''span'' [(''className'', PStr ''text-white text-xs'')] [Text ''5G''],
       Tag ''div'' [(''className'', PStr ''w-4 h-2 border border-white rounded-[2px]'')]
       [Tag ''div'' [(''className'', PStr ''w-3 h-full bg-white rounded-[1px]'')] []]]],
     Tag ''div'' [(''className'', PStr ''flex-grow flex flex-col justify-between'')]
     [Tag ''div'' [(''className'', PStr ''text-center mb-4'')]
      [Tag ''h2'' [(''className'', PStr ''text-silver text-lg font-bold'')] [Text ''AI Trading Bot''],
       Tag ''p'' [(''className'', PStr ''text-gold text-3xl font-extrabold mt-1 flex items-center justify-center'')]
       [Tag ''DollarSign'' [(''className'', PStr ''h-6 w-6 mr-1'')] [], Text '' 12,345.67''],
       Tag ''p'' [(''className'', PStr ''text-green-400 text-sm flex items-center justify-center mt-1'')]
       [Tag ''ArrowUpRight'' [(''className'', PStr ''h-4 w-4 mr-1'')] [], Text '' +2.5% Today'']],
      Tag ''div'' [(''className'', PStr ''flex-grow w-full h-32'')]
      [Tag ''ResponsiveContainer'' [(''width'', PStr ''100%''), (''height'', PStr ''100%'')]
       [Tag ''LineChart''
         [(''data'', PRows (data m)),
          (''margin'', PObj [(''top'', 5), (''right'', 10), (''left'', 10), (''bottom'', 5)])]
        [Tag ''Line''
          [(''type'', PStr ''monotone''), (''dataKey'', PStr ''uv''), (''stroke'', PStr ''#FFD700''),
           (''strokeWidth'', PNum 2), (''dot'', PBool False)] []]]],
      Tag ''button'' [(''className'', PStr ''mt-4 w-full bg-gold text-black py-2 rounded-xl font-bold text-lg shadow-lg hover:bg-yellow-500 transition-colors'')]
      [Text ''Activate Bot'']]],
    Tag ''div'' [(''className'', PStr ''absolute top-0 left-1/2 -translate-x-1/2 w-24 h-6 bg-black rounded-b-xl z-20'')] []],
   Tag ''div'' [(''className'', PStr ''relative w-64 h-48 mt-4 overflow-hidden'')]
   [Tag ''div'' [(''className'', PStr ''absolute inset-0 bg-gradient-to-b from-transparent to-black opacity-70 blur-sm'')] [],
    Tag ''div'' [(''className'', PStr ''absolute inset-0 transform scale-y-[-1] opacity-50'')]
    [Tag ''div'' [(''className'', PStr ''relative w-full h-full bg-black rounded-[2.5rem] border-4 border-gold shadow-2xl overflow-hidden'')]
     [Tag ''div'' [(''className'', PStr ''absolute inset-2 bg-gray-900 rounded-[2rem] flex flex-col p-4'')]
      [Tag ''div'' [(''className'', PStr ''flex justify-between items-center mb-4'')]
       [Tag ''span'' [(''className'', PStr ''text-white text-sm font-semibold'')] [],
        Tag ''div'' [(''className'', PStr ''flex items-center space-x-1'')]
        [Tag ''span'' [(''className'', PStr ''text-white text-xs'')] [],
         Tag ''div'' [(''className'', PStr ''w-4 h-2 border border-white rounded-[2px]'')]
         [Tag ''div'' [(''className'', PStr ''w-3 h-full bg-white rounded-[1px]'')] []]]],
       Tag ''div'' [(''className'', PStr ''flex-grow flex flex-col justify-between'')]
       [Tag ''div'' [(''className'', PStr ''text-center mb-4'')]
        [Tag ''h2'' [(''className'', PStr ''text-silver text-lg font-bold'')] [],
         Tag ''p'' [(''className'', PStr ''text-gold text-3xl font-extrabold mt-1 flex items-center justify-center'')]
         [Tag ''DollarSign'' [(''className'', PStr ''h-6 w-6 mr-1'')] []],
         Tag ''p'' [(''className'', PStr ''text-green-400 text-sm flex items-center justify-center mt-1'')]
         [Tag ''ArrowUpRight'' [(''className'', PStr ''h-4 w-4 mr-1'')] []]],
        Tag ''div'' [(''className'', PStr ''flex-grow w-full h-32'')]
        [Tag ''ResponsiveContainer'' [(''width'', PStr ''100%''), (''height'', PStr ''100%'')]
         [Tag ''LineChart''
           [(''data'', PRows (data m)),
            (''margin'', PObj [(''top'', 5), (''right'', 10), (''left'', 10), (''bottom'', 5)])]
          [Tag ''Line''
            [(''type'', PStr ''monotone''), (''dataKey'', PStr ''uv''), (''stroke'', PStr ''#FFD700''),
             (''strokeWidth'', PNum 2), (''dot'', PBool False)] []]]],
        Tag ''button'' [(''className'', PStr ''mt-4 w-full bg-gold text-black py-2 rounded-xl font-bold text-lg shadow-lg'')] []]],
      Tag ''div'' [(''className'', PStr ''absolute top-0 left-1/2 -translate-x-1/2 w-24 h-6 bg-black rounded-b-xl'')] []]],
    Tag ''div'' [(''className'', PStr ''absolute inset-x-0 bottom-0 h-1/3 bg-gradient-to-t from-black to-transparent opacity-80'')] []]],
  m)"

text \<open>
  The data rows a tree carries: the row-valued props of its elements, in document
  order. Everything else in a tree is a literal of the source.
\<close>

fun prop_rows :: "(string \<times> prop_value) list \<Rightarrow> datum list list" where
  "prop_rows [] = []"
| "prop_rows ((key, PRows rows) # ps) = rows # prop_rows ps"
| "prop_rows ((key, v) # ps) = prop_rows ps"

fun rows_of :: "jsx \<Rightarrow> datum list list" where
  "rows_of (Text t) = []"
| "rows_of (Tag tag props children) = prop_rows props @ concat (map rows_of children)"

text \<open>
  Renders over time: the component is rendered once for each element of a list (the
  props of that render), each render running in the scope the one before it left.
  The result is the trees in order and the scope after the last render.
\<close>

fun renders :: "'props list \<Rightarrow> module_scope \<Rightarrow> jsx list \<times> module_scope" where
  "renders [] m = ([], m)"
| "renders (p # ps) m =
     (case TradingBotGraphic p m of
        (tree, m') \<Rightarrow> (case renders ps m' of (trees, m'') \<Rightarrow> (tree # trees, m'')))"

section \<open>Boss state machine (specification, section 4.1)\<close>

text \<open>
  Modelled from the spec: the Boss state machine, whose implementation (the
  dspy-boss package the README describes) is not among the source files. The
  states, the events and the transition table are those of section 4.1 of the
  specification, the error kinds those of section 7.
\<close>

datatype BossState =
  idle | awake | executing | researching | thinking | rethink | reflecting | restart | stop

datatype event =
    submit_task
  | begin_dispatch
  | enter_research
  | research_done
  | synthesis_done
  | synthesis_rejected
  | rethink_retry
  | task_failed
  | reflection_done
  | external_stop

datatype error_kind =
    DuplicateTaskError
  | InvalidAssigneeError
  | InvalidTransitionError
  | HumanTimeout
  | AssigneeExecutionError
  | RethinkBudgetExceeded

text \<open>
  Modelled from the spec: the data of one machine. \<open>max_rethink\<close> is the rethink
  budget, \<open>rethink_count\<close> the rethink passes begun so far, \<open>reflecting_on\<close> the
  error kind that led to \<open>reflecting\<close> when the budget was exhausted (section 7:
  \<open>RethinkBudgetExceeded\<close> is an expected path through \<open>reflecting\<close>).
\<close>

record machine =
  state :: BossState
  rethink_count :: nat
  max_rethink :: nat
  reflecting_on :: "error_kind option"

text \<open>
  Modelled from the spec: the two conditions of the table that the machine reads
  from its Boss: whether more tasks are queued (\<open>synthesis_done\<close>) and whether the
  failure is recoverable (\<open>reflection_done\<close>).
\<close>

record guards =
  more_queued :: bool
  recoverable :: bool

text \<open>
  Modelled from the spec: the transition table of section 4.1, one equation per
  event, in the table's order. An event that is not listed for the current state
  is rejected with \<open>InvalidTransitionError\<close> and yields no new machine. The
  specification names \<open>rethink_count\<close> without saying when it changes; here every
  entry into \<open>rethink\<close> counts as one pass, the reading under which its scenario
  (three rejections with budget two end in \<open>reflecting\<close>) comes out.
\<close>

fun transition :: "guards \<Rightarrow> machine \<Rightarrow> event \<Rightarrow> error_kind + machine" where
  "transition g m submit_task =
     (if state m = idle \<or> state m = awake then Inr (m\<lparr>state := awake\<rparr>)
      else Inl InvalidTransitionError)"
| "transition g m begin_dispatch =
     (if state m = awake then Inr (m\<lparr>state := executing\<rparr>)
      else Inl InvalidTransitionError)"
| "transition g m enter_research =
     (if state m = executing then Inr (m\<lparr>state := researching\<rparr>)
      else Inl InvalidTransitionError)"
| "transition g m research_done =
     (if state m = researching then Inr (m\<lparr>state := thinking\<rparr>)
      else Inl InvalidTransitionError)"
| "transition g m synthesis_done =
     (if state m = thinking then
        Inr (m\<lparr>state := (if more_queued g then awake else idle)\<rparr>)
      else Inl InvalidTransitionError)"
| "transition g m synthesis_rejected =
     (if state m = thinking then
        (if rethink_count m < max_rethink m then
           Inr (m\<lparr>state := rethink, rethink_count := Suc (rethink_count m)\<rparr>)
         else
           Inr (m\<lparr>state := reflecting, reflecting_on := Some RethinkBudgetExceeded\<rparr>))
      else Inl InvalidTransitionError)"
| "transition g m rethink_retry =
     (if state m = rethink then Inr (m\<lparr>state := researching\<rparr>)
      else Inl InvalidTransitionError)"
| "transition g m task_failed =
     (if state m = executing \<or> state m = researching \<or> state m = thinking then
        Inr (m\<lparr>state := reflecting\<rparr>)
      else Inl InvalidTransitionError)"
| "transition g m reflection_done =
     (if state m = reflecting then
        Inr (m\<lparr>state := (if recoverable g then restart else stop)\<rparr>)
      else Inl InvalidTransitionError)"
| "transition g m external_stop = Inr (m\<lparr>state := stop\<rparr>)"

text \<open>
  Modelled from the spec: one event served. A rejected event leaves the machine as
  it was (section 4.1: the state is unchanged).
\<close>

definition deliver :: "guards \<Rightarrow> machine \<Rightarrow> event \<Rightarrow> machine" where
  "deliver g m e = (case transition g m e of Inl err \<Rightarrow> m | Inr m' \<Rightarrow> m')"

text \<open>
  Modelled from the spec: the single ordered event queue of a Boss (section 5),
  served from the front.
\<close>

fun run :: "guards \<Rightarrow> machine \<Rightarrow> event list \<Rightarrow> machine" where
  "run g m [] = m"
| "run g m (e # es) = run g (deliver g m e) es"

text \<open>The number of entries into \<open>rethink\<close> while a list of events is served.\<close>

fun rethink_passes :: "guards \<Rightarrow> machine \<Rightarrow> event list \<Rightarrow> nat" where
  "rethink_passes g m [] = 0"
| "rethink_passes g m (e # es) =
     (if state m \<noteq> rethink \<and> state (deliver g m e) = rethink then 1 else 0)
       + rethink_passes g (deliver g m e) es"

text \<open>
  One rejected synthesis and the way back to \<open>thinking\<close>: the rejection, the retry
  and the research it starts; \<open>rejections n\<close> is \<open>n\<close> such rounds.
\<close>

definition rejection_round :: "event list" where
  "rejection_round = [synthesis_rejected, rethink_retry, research_done]"

fun rejections :: "nat \<Rightarrow> event list" where
  "rejections 0 = []"
| "rejections (Suc n) = rejection_round @ rejections n"

text \<open>
  Modelled from the spec: the machine of a new Boss, in \<open>idle\<close> (no work
  assigned), with the given rethink budget and no pass begun.
\<close>

definition fresh_machine :: "nat \<Rightarrow> machine" where
  "fresh_machine budget =
     \<lparr>state = idle, rethink_count = 0, max_rethink = budget, reflecting_on = None\<rparr>"

section \<open>Properties of SafeLavaLamp\<close>

lemma SafeLavaLamp_guarded:
  assumes "truthy (ErrorComponent s) \<or> \<not> showLamp s"
  shows "\<exists>cs. SafeLavaLamp require s = Inr \<lparr>returned = None, calls = cs\<rparr>"
  using assms by (auto simp: SafeLavaLamp_def)

lemma SafeLavaLamp_load_throws:
  assumes "require ''./fluid-blob'' = Inl err" and "read_message err = Inr msg"
    and "showLamp s" and "\<not> truthy (ErrorComponent s)"
  shows "SafeLavaLamp require s = Inr \<lparr>returned = None, calls = [SetError msg]\<rparr>"
  using assms by (simp add: SafeLavaLamp_def try_catch_def)

lemma SafeLavaLamp_handler_throws:
  assumes "require ''./fluid-blob'' = Inl err" and "read_message err = Inl thrown"
    and "showLamp s" and "\<not> truthy (ErrorComponent s)"
  shows "SafeLavaLamp require s = Inl thrown"
  using assms by (simp add: SafeLavaLamp_def try_catch_def)

lemma SafeLavaLamp_first_render:
  "SafeLavaLamp require initial_state = Inr \<lparr>returned = None, calls = []\<rparr>"
  by (simp add: SafeLavaLamp_def initial_state_def)

lemma advance_before_timer:
  assumes "cells c = initial_state" and "timer_waits c (elapsed (e # es))"
  shows "cells (advance c e) = initial_state \<and> timer_waits (advance c e) (elapsed es)"
proof (cases e)
  case (Elapse t)
  with assms show ?thesis
    by (auto simp: timer_waits_def split: option.splits)
next
  case (Render require)
  with assms show ?thesis
    by (simp add: timer_waits_def SafeLavaLamp_first_render after_render_def)
next
  case Unmount
  with assms show ?thesis
    by (simp add: timer_waits_def)
qed

lemma outcomes_before_timer:
  assumes "cells c = initial_state" and "timer_waits c (elapsed es)"
  shows "\<forall>out \<in> set (outcomes c es). out = Inr \<lparr>returned = None, calls = []\<rparr>"
  using assms
proof (induction es arbitrary: c)
  case Nil
  show ?case by simp
next
  case (Cons e es)
  from advance_before_timer [OF Cons.prems]
  have "\<forall>out \<in> set (outcomes (advance c e) es). out = Inr \<lparr>returned = None, calls = []\<rparr>"
    by (intro Cons.IH) simp_all
  moreover have "\<forall>out \<in> set (rendering c e). out = Inr \<lparr>returned = None, calls = []\<rparr>"
    using Cons.prems(1) by (cases e) (simp_all add: SafeLavaLamp_first_render)
  ultimately show ?case by auto
qed

lemma outcomes_mount_before_timer:
  assumes "elapsed es < mount_timer_ms"
  shows "\<forall>out \<in> set (outcomes mount es). out = Inr \<lparr>returned = None, calls = []\<rparr>"
  using assms by (intro outcomes_before_timer) (simp_all add: mount_def timer_waits_def)

text \<open>
  With the empty message recorded and a loader that keeps throwing \<open>new Error("")\<close>,
  the cells never change and every render calls \<open>setError\<close> again.
\<close>

lemma empty_message_render:
  assumes "cells c = \<lparr>showLamp = True, ErrorComponent = JsString ''''\<rparr>"
  shows "SafeLavaLamp (require_throws (new_Error '''')) (cells c)
      = Inr \<lparr>returned = None, calls = [SetError (JsString '''')]\<rparr>"
    and "advance c (Render (require_throws (new_Error ''''))) = c"
  using assms
  by (simp_all add: SafeLavaLamp_def try_catch_def require_throws_def new_Error_def
      after_render_def)

lemma empty_message_sets_error_again:
  assumes "cells c = \<lparr>showLamp = True, ErrorComponent = JsString ''''\<rparr>"
  shows "outcomes c (replicate n (Render (require_throws (new_Error ''''))))
      = replicate n (Inr \<lparr>returned = None, calls = [SetError (JsString '''')]\<rparr>)"
proof (induction n)
  case 0
  show ?case by simp
next
  case (Suc n)
  have now: "rendering c (Render (require_throws (new_Error '''')))
      = [Inr \<lparr>returned = None, calls = [SetError (JsString '''')]\<rparr>]"
    using empty_message_render(1) [OF assms] by (simp only: rendering.simps)
  have stays: "advance c (Render (require_throws (new_Error ''''))) = c"
    by (rule empty_message_render(2) [OF assms])
  show ?case
    by (simp only: replicate_Suc outcomes.simps now stays Suc.IH append.simps)
qed

text \<open>
  C9. The claim does not hold of the component; the renders below are the ones where
  it fails. Mount the component and let the 100 ms pass. First, a loader that throws
  \<open>new Error("")\<close> and then loads: after the first of the two renders the cells are
  \<open>showLamp = true\<close>, \<open>ErrorComponent = ""\<close>, so an error has been recorded; the
  test \<open>if (ErrorComponent)\<close> reads the empty string as false, and the second render
  goes on to the load and returns \<open><LavaLamp />\<close>, not \<open>null\<close>. Second, a loader
  that throws \<open>null\<close>: the read of \<open>.message\<close> in the handler throws a
  \<open>TypeError\<close>, which nothing in the component catches, so the render throws to the
  parent.
\<close>

theorem SafeLavaLamp_fails_to_contain:
  "cells (play mount [Elapse 100, Render (require_throws (new_Error ''''))])
     = \<lparr>showLamp = True, ErrorComponent = JsString ''''\<rparr>
   \<and> outcomes mount
       [Elapse 100, Render (require_throws (new_Error '''')), Render require_loads]
     = [Inr \<lparr>returned = None, calls = [SetError (JsString '''')]\<rparr>,
        Inr \<lparr>returned = Some (Element ''LavaLamp''), calls = []\<rparr>]
   \<and> outcomes mount [Elapse 100, Render (require_throws JsNull)] = [Inl TypeError]"
  by (simp add: SafeLavaLamp_def try_catch_def after_render_def timer_fired_def
      initial_state_def require_throws_def require_loads_def new_Error_def mount_def
      mount_timer_ms_def)

section \<open>Properties of TradingBotGraphic\<close>

lemma TradingBotGraphic_render:
  "TradingBotGraphic p m = (fst (TradingBotGraphic q m), m)"
  by (simp add: TradingBotGraphic_def)

lemma TradingBotGraphic_rows:
  "rows_of (fst (TradingBotGraphic p m)) = [data m, data m]"
  by (simp add: TradingBotGraphic_def)

lemma renders_identical:
  "renders ps m = (replicate (length ps) (fst (TradingBotGraphic q m)), m)"
proof (induction ps arbitrary: m)
  case Nil
  show ?case by simp
next
  case (Cons p ps)
  have "TradingBotGraphic p m = (fst (TradingBotGraphic q m), m)"
    by (rule TradingBotGraphic_render)
  then show ?case
    by (simp add: Cons.IH)
qed

text \<open>
  C10. Renders of \<open>TradingBotGraphic\<close> over time, whatever each is passed and
  whatever the array \<open>data\<close> holds when they start, all return one and the same
  tree, and they leave the array as it was: every two renders produce identical
  output, and the entries do not change between renders. The data rows of the tree
  are the array, once for each of its two charts. Once the module has been evaluated,
  the array has exactly seven entries, named Jan to Jul, and after any number of
  renders its \<open>uv\<close> values are still those of the source.
\<close>

theorem TradingBotGraphic_deterministic:
  "renders ps m = (replicate (length ps) (fst (TradingBotGraphic p m)), m)
   \<and> rows_of (fst (TradingBotGraphic p m)) = [data m, data m]
   \<and> length (data module_evaluated) = 7
   \<and> map name (data (snd (renders ps module_evaluated)))
       = [''Jan'', ''Feb'', ''Mar'', ''Apr'', ''May'', ''Jun'', ''Jul'']
   \<and> map uv (data (snd (renders ps module_evaluated)))
       = [4000, 3000, 2000, 2780, 1890, 2390, 3490]"
proof (intro conjI)
  show same: "renders ps m = (replicate (length ps) (fst (TradingBotGraphic p m)), m)" for m
    by (rule renders_identical)
  show "rows_of (fst (TradingBotGraphic p m)) = [data m, data m]"
    by (rule TradingBotGraphic_rows)
  show "length (data module_evaluated) = 7"
    by (simp add: module_evaluated_def)
  have kept: "snd (renders ps module_evaluated) = module_evaluated"
    by (simp add: same)
  show "map name (data (snd (renders ps module_evaluated)))
      = [''Jan'', ''Feb'', ''Mar'', ''Apr'', ''May'', ''Jun'', ''Jul'']"
    unfolding kept by (simp add: module_evaluated_def)
  show "map uv (data (snd (renders ps module_evaluated)))
      = [4000, 3000, 2000, 2780, 1890, 2390, 3490]"
    unfolding kept by (simp add: module_evaluated_def)
qed

section \<open>Properties of the Boss state machine\<close>


subsection \<open>The rethink budget\<close>

lemma run_append: "run g m (es @ fs) = run g (run g m es) fs"
  by (induction es arbitrary: m) simp_all

lemma deliver_budget: "max_rethink (deliver g m e) = max_rethink m"
  by (cases e) (simp_all add: deliver_def)

lemma deliver_enters_rethink:
  assumes "state m \<noteq> rethink" and "state (deliver g m e) = rethink"
  shows "rethink_count m < max_rethink m \<and> rethink_count (deliver g m e) = Suc (rethink_count m)"
  using assms by (cases e) (auto simp: deliver_def split: if_splits)

lemma deliver_count_other:
  assumes "\<not> (state m \<noteq> rethink \<and> state (deliver g m e) = rethink)"
  shows "rethink_count (deliver g m e) = rethink_count m"
  using assms by (cases e) (auto simp: deliver_def split: if_splits)

lemma rethink_passes_bound:
  "rethink_passes g m es \<le> max_rethink m - rethink_count m"
proof (induction es arbitrary: m)
  case Nil
  show ?case by simp
next
  case (Cons e es)
  let ?m' = "deliver g m e"
  have ih: "rethink_passes g ?m' es \<le> max_rethink m - rethink_count ?m'"
    using Cons.IH [of ?m'] by (simp add: deliver_budget)
  show ?case
  proof (cases "state m \<noteq> rethink \<and> state ?m' = rethink")
    case True
    with deliver_enters_rethink [of m g e]
    have "rethink_count m < max_rethink m" and "rethink_count ?m' = Suc (rethink_count m)"
      by simp_all
    with ih True show ?thesis by simp
  next
    case False
    with deliver_count_other [of m g e] have "rethink_count ?m' = rethink_count m"
      by blast
    with ih False show ?thesis by auto
  qed
qed

lemma rejection_round_run:
  assumes "state m = thinking" and "rethink_count m < max_rethink m"
  shows "run g m rejection_round = m\<lparr>rethink_count := Suc (rethink_count m)\<rparr>"
  using assms by (simp add: rejection_round_def deliver_def)

lemma rejections_run:
  assumes "state m = thinking" and "rethink_count m + n \<le> max_rethink m"
  shows "run g m (rejections n) = m\<lparr>rethink_count := rethink_count m + n\<rparr>"
  using assms
proof (induction n arbitrary: m)
  case 0
  show ?case by simp
next
  case (Suc n)
  let ?m' = "m\<lparr>rethink_count := Suc (rethink_count m)\<rparr>"
  have "run g m rejection_round = ?m'"
    using Suc.prems by (simp add: rejection_round_run)
  moreover have "run g ?m' (rejections n) = ?m'\<lparr>rethink_count := rethink_count ?m' + n\<rparr>"
    using Suc.prems by (intro Suc.IH) simp_all
  ultimately show ?case by (simp add: run_append)
qed

text \<open>
  C4. In \<open>thinking\<close>, \<open>synthesis_rejected\<close> leads to \<open>rethink\<close> when
  \<open>rethink_count < max\<close> and to \<open>reflecting\<close> otherwise. Whatever events are served,
  the machine enters \<open>rethink\<close> at most \<open>max - rethink_count\<close> times, so at most
  \<open>max\<close> times from a fresh machine: the loop cannot repeat without bound. With
  repeated rejections, each retried, the rejection that follows the last pass of the
  budget ends in \<open>reflecting\<close> with \<open>RethinkBudgetExceeded\<close>.
\<close>

theorem rethink_budget_bounds_rejections:
  "(state m = thinking \<longrightarrow>
      transition g m synthesis_rejected =
        Inr (if rethink_count m < max_rethink m
             then m\<lparr>state := rethink, rethink_count := Suc (rethink_count m)\<rparr>
             else m\<lparr>state := reflecting, reflecting_on := Some RethinkBudgetExceeded\<rparr>))
   \<and> rethink_passes g m es \<le> max_rethink m - rethink_count m
   \<and> rethink_passes g (fresh_machine budget) es \<le> budget
   \<and> (state m = thinking \<and> rethink_count m \<le> max_rethink m \<longrightarrow>
        run g m (rejections (max_rethink m - rethink_count m) @ [synthesis_rejected]) =
          m\<lparr>state := reflecting, rethink_count := max_rethink m,
            reflecting_on := Some RethinkBudgetExceeded\<rparr>)"
proof (intro conjI impI)
  assume "state m = thinking"
  then show "transition g m synthesis_rejected =
      Inr (if rethink_count m < max_rethink m
           then m\<lparr>state := rethink, rethink_count := Suc (rethink_count m)\<rparr>
           else m\<lparr>state := reflecting, reflecting_on := Some RethinkBudgetExceeded\<rparr>)"
    by simp
next
  show "rethink_passes g m es \<le> max_rethink m - rethink_count m"
    by (rule rethink_passes_bound)
next
  show "rethink_passes g (fresh_machine budget) es \<le> budget"
    using rethink_passes_bound [of g "fresh_machine budget" es]
    by (simp add: fresh_machine_def)
next
  assume a: "state m = thinking \<and> rethink_count m \<le> max_rethink m"
  let ?n = "max_rethink m - rethink_count m"
  have "run g m (rejections ?n) = m\<lparr>rethink_count := rethink_count m + ?n\<rparr>"
    using a by (intro rejections_run) simp_all
  with a show "run g m (rejections ?n @ [synthesis_rejected]) =
      m\<lparr>state := reflecting, rethink_count := max_rethink m,
        reflecting_on := Some RethinkBudgetExceeded\<rparr>"
    by (simp add: run_append deliver_def)
qed

text \<open>
  The scenario of the specification: budget two, a result rejected three times. The
  first two rejections are the two rethink passes; the third ends in \<open>reflecting\<close>
  with \<open>RethinkBudgetExceeded\<close>.
\<close>

theorem rethink_budget_bounds_rejections_witness:
  "transition \<lparr>more_queued = False, recoverable = False\<rparr>
       \<lparr>state = thinking, rethink_count = 0, max_rethink = 2, reflecting_on = None\<rparr>
       synthesis_rejected
     = Inr \<lparr>state = rethink, rethink_count = 1, max_rethink = 2, reflecting_on = None\<rparr>
   \<and> rethink_passes \<lparr>more_queued = False, recoverable = False\<rparr>
       \<lparr>state = thinking, rethink_count = 0, max_rethink = 2, reflecting_on = None\<rparr>
       (rejections 2 @ [synthesis_rejected]) \<le> 2
   \<and> run \<lparr>more_queued = False, recoverable = False\<rparr>
       \<lparr>state = thinking, rethink_count = 0, max_rethink = 2, reflecting_on = None\<rparr>
       (rejections 2 @ [synthesis_rejected])
     = \<lparr>state = reflecting, rethink_count = 2, max_rethink = 2,
        reflecting_on = Some RethinkBudgetExceeded\<rparr>"
  using rethink_budget_bounds_rejections
    [of "\<lparr>state = thinking, rethink_count = 0, max_rethink = 2, reflecting_on = None\<rparr>"
        "\<lparr>more_queued = False, recoverable = False\<rparr>"
        "rejections 2 @ [synthesis_rejected]" 2]
  by simp

end
